theory Spec2Isabelle
  imports Complex_Main "HOL-Library.Multiset"
begin

section \<open>Values of the request and of the store\<close>

text \<open>
  The server (\<^verbatim>\<open>server.js\<close>) reads JSON bodies and writes plain documents to one MongoDB
  collection. A JavaScript value is one of the JSON shapes, or \<^verbatim>\<open>undefined\<close>, which is
  what reading a missing property gives. A string is a list of characters, one per
  UTF-16 code unit below 256; numbers are the reals (JSON carries no NaN).
\<close>

datatype jsval =
    JUndefined
  | JNull
  | JBool bool
  | JNum real
  | JStr string
  | JArr "jsval list"
  | JObj "(string \<times> jsval) list"

text \<open>A request body: the parsed JSON object. \<^verbatim>\<open>payload[key]\<close> is \<open>js_get payload key\<close>.\<close>

type_synonym payload = "string \<rightharpoonup> jsval"

definition js_get :: "payload \<Rightarrow> string \<Rightarrow> jsval" where
  "js_get p k = (case p k of None \<Rightarrow> JUndefined | Some v \<Rightarrow> v)"

text \<open>\<^verbatim>\<open>typeof v === 'string'\<close>, \<^verbatim>\<open>Array.isArray(v)\<close>, \<^verbatim>\<open>typeof v === 'number'\<close>,
  \<^verbatim>\<open>typeof v === 'boolean'\<close>.\<close>

fun is_string :: "jsval \<Rightarrow> bool" where
  "is_string (JStr s) = True"
| "is_string v = False"

fun is_array :: "jsval \<Rightarrow> bool" where
  "is_array (JArr xs) = True"
| "is_array v = False"

fun is_number :: "jsval \<Rightarrow> bool" where
  "is_number (JNum n) = True"
| "is_number v = False"

fun is_boolean :: "jsval \<Rightarrow> bool" where
  "is_boolean (JBool b) = True"
| "is_boolean v = False"

text \<open>JavaScript truthiness, as \<^verbatim>\<open>!!v\<close>, \<^verbatim>\<open>v || d\<close> and \<^verbatim>\<open>if (v)\<close> read it.\<close>

fun truthy :: "jsval \<Rightarrow> bool" where
  "truthy JUndefined = False"
| "truthy JNull = False"
| "truthy (JBool b) = b"
| "truthy (JNum n) = (n \<noteq> 0)"
| "truthy (JStr s) = (s \<noteq> [])"
| "truthy (JArr xs) = True"
| "truthy (JObj kvs) = True"

text \<open>\<^verbatim>\<open>a || b\<close> and \<^verbatim>\<open>a ?? b\<close>.\<close>

definition js_or :: "jsval \<Rightarrow> jsval \<Rightarrow> jsval" where
  "js_or a b = (if truthy a then a else b)"

definition js_nullish :: "jsval \<Rightarrow> jsval \<Rightarrow> jsval" where
  "js_nullish a b = (if a = JUndefined \<or> a = JNull then b else a)"

text \<open>\<^verbatim>\<open>String.prototype.trim\<close>: the white space among the code units below 256 is
  TAB, LF, VT, FF, CR, SPACE and NBSP.\<close>

definition is_ws :: "char \<Rightarrow> bool" where
  "is_ws c \<longleftrightarrow> (of_char c :: nat) \<in> {9, 10, 11, 12, 13, 32, 160}"

definition js_trim :: "string \<Rightarrow> string" where
  "js_trim s = rev (dropWhile is_ws (rev (dropWhile is_ws s)))"

section \<open>The validator\<close>

text \<open>
  \<^verbatim>\<open>gameSchema\<close> is a table from field name to rule. A rule's absent entries
  (\<^verbatim>\<open>s.min !== undefined\<close>) are \<open>None\<close>. The upper bound of \<^verbatim>\<open>annee_sortie\<close> is
  \<^verbatim>\<open>new Date().getFullYear()\<close>, read once when the module loads: the parameter \<open>year\<close>.
\<close>

datatype jstype = TString | TArray | TNumber | TBoolean

record rule =
  rtype :: jstype
  required :: bool
  rmin :: "real option"
  rmax :: "real option"
  minItems :: "nat option"
  minLength :: "nat option"

definition gameSchema :: "int \<Rightarrow> (string \<times> rule) list" where
  "gameSchema year =
    [(''titre'', \<lparr>rtype = TString, required = True, rmin = None, rmax = None,
         minItems = None, minLength = Some 1\<rparr>),
     (''genre'', \<lparr>rtype = TArray, required = True, rmin = None, rmax = None,
         minItems = Some 1, minLength = None\<rparr>),
     (''plateforme'', \<lparr>rtype = TArray, required = True, rmin = None, rmax = None,
         minItems = Some 1, minLength = None\<rparr>),
     (''editeur'', \<lparr>rtype = TString, required = False, rmin = None, rmax = None,
         minItems = None, minLength = None\<rparr>),
     (''developpeur'', \<lparr>rtype = TString, required = False, rmin = None, rmax = None,
         minItems = None, minLength = None\<rparr>),
     (''annee_sortie'', \<lparr>rtype = TNumber, required = False, rmin = Some 1970,
         rmax = Some (of_int year), minItems = None, minLength = None\<rparr>),
     (''temps_jeu_heures'', \<lparr>rtype = TNumber, required = False, rmin = Some 0, rmax = None,
         minItems = None, minLength = None\<rparr>),
     (''termine'', \<lparr>rtype = TBoolean, required = False, rmin = None, rmax = None,
         minItems = None, minLength = None\<rparr>)]"

text \<open>
  The error messages, one constructor per template of the source:
  \<^item> \<open>Requis k\<close>: \<^verbatim>\<open>`${key} requis`\<close>;
  \<^item> \<open>DoitEtreChaine k\<close>, \<open>DoitEtreTableau k\<close>, \<open>DoitEtreNombre k\<close>, \<open>DoitEtreBoolean k\<close>:
    the four \<^verbatim>\<open>`${key} doit etre ...`\<close> type messages;
  \<^item> \<open>DoitEtreGe k m\<close>, \<open>DoitEtreLe k m\<close>: \<^verbatim>\<open>`${key} doit etre >= ${s.min}`\<close> and
    \<^verbatim>\<open>`${key} doit etre <= ${s.max}`\<close>;
  \<^item> \<open>AuMoins k n\<close>: \<^verbatim>\<open>`${key} doit contenir au moins ${s.minItems} element(s)`\<close>;
  \<^item> \<open>TropCourt k\<close>: \<^verbatim>\<open>`${key} trop court`\<close>.
\<close>

datatype verror =
    Requis string
  | DoitEtreChaine string
  | DoitEtreTableau string
  | DoitEtreNombre string
  | DoitEtreBoolean string
  | DoitEtreGe string real
  | DoitEtreLe string real
  | AuMoins string nat
  | TropCourt string

fun err_field :: "verror \<Rightarrow> string" where
  "err_field (Requis k) = k"
| "err_field (DoitEtreChaine k) = k"
| "err_field (DoitEtreTableau k) = k"
| "err_field (DoitEtreNombre k) = k"
| "err_field (DoitEtreBoolean k) = k"
| "err_field (DoitEtreGe k m) = k"
| "err_field (DoitEtreLe k m) = k"
| "err_field (AuMoins k n) = k"
| "err_field (TropCourt k) = k"

text \<open>The tests of one value that the loop body makes.\<close>

fun blank_string :: "jsval \<Rightarrow> bool" where
  "blank_string (JStr s) = (js_trim s = [])"
| "blank_string v = False"

fun empty_array :: "jsval \<Rightarrow> bool" where
  "empty_array (JArr xs) = (length xs = 0)"
| "empty_array v = False"

fun num_below :: "jsval \<Rightarrow> real \<Rightarrow> bool" where
  "num_below (JNum n) m = (n < m)"
| "num_below v m = False"

fun num_above :: "jsval \<Rightarrow> real \<Rightarrow> bool" where
  "num_above (JNum n) m = (n > m)"
| "num_above v m = False"

fun arr_shorter :: "jsval \<Rightarrow> nat \<Rightarrow> bool" where
  "arr_shorter (JArr xs) n = (length xs < n)"
| "arr_shorter v n = False"

fun str_shorter :: "jsval \<Rightarrow> nat \<Rightarrow> bool" where
  "str_shorter (JStr s) n = (length s < n)"
| "str_shorter v n = False"

text \<open>The required test of line 41, without its mode guard.\<close>

definition missing :: "jsval \<Rightarrow> bool" where
  "missing v \<longleftrightarrow> v = JUndefined \<or> v = JNull \<or> blank_string v \<or> empty_array v"

text \<open>The eight checks of lines 46 to 53, in their order.\<close>

definition value_checks :: "string \<Rightarrow> rule \<Rightarrow> jsval \<Rightarrow> verror list" where
  "value_checks key s v =
     (if rtype s = TString \<and> \<not> is_string v then [DoitEtreChaine key] else [])
   @ (if rtype s = TArray \<and> \<not> is_array v then [DoitEtreTableau key] else [])
   @ (if rtype s = TNumber \<and> \<not> is_number v then [DoitEtreNombre key] else [])
   @ (if rtype s = TBoolean \<and> \<not> is_boolean v then [DoitEtreBoolean key] else [])
   @ (case rmin s of Some m \<Rightarrow> if num_below v m then [DoitEtreGe key m] else [] | None \<Rightarrow> [])
   @ (case rmax s of Some m \<Rightarrow> if num_above v m then [DoitEtreLe key m] else [] | None \<Rightarrow> [])
   @ (case minItems s of Some n \<Rightarrow> if arr_shorter v n then [AuMoins key n] else []
        | None \<Rightarrow> [])
   @ (case minLength s of Some n \<Rightarrow> if str_shorter v n then [TropCourt key] else []
        | None \<Rightarrow> [])"

text \<open>The body of the \<^verbatim>\<open>forEach\<close> callback: the errors it pushes for one key.\<close>

definition validateKey :: "payload \<Rightarrow> bool \<Rightarrow> string \<times> rule \<Rightarrow> verror list" where
  "validateKey p isUpdate kr =
     (let key = fst kr; s = snd kr; v = js_get p key in
      if \<not> isUpdate \<and> required s \<and> missing v then [Requis key]
      else if v \<noteq> JUndefined \<and> v \<noteq> JNull then value_checks key s v
      else [])"

definition validateGame :: "int \<Rightarrow> payload \<Rightarrow> bool \<Rightarrow> verror list" where
  "validateGame year p isUpdate = concat (map (validateKey p isUpdate) (gameSchema year))"

section \<open>Documents and the driver's identifiers\<close>

text \<open>
  Every document the server writes has the eleven fields of the \<^verbatim>\<open>doc\<close> literal of
  \<^verbatim>\<open>POST /api/games\<close>, next to its \<^verbatim>\<open>_id\<close>. The two dates are \<^verbatim>\<open>Date\<close> objects, kept as
  their milliseconds; the nine others hold whatever value the handlers store.
\<close>

record game_fields =
  titre :: jsval
  genre :: jsval
  plateforme :: jsval
  editeur :: jsval
  developpeur :: jsval
  annee_sortie :: jsval
  temps_jeu_heures :: jsval
  termine :: jsval
  favorite :: jsval
  date_ajout :: int
  date_modification :: int

text \<open>An \<^verbatim>\<open>ObjectId\<close> is kept as what its \<^verbatim>\<open>toString()\<close> prints: 24 lower-case
  hexadecimal digits.\<close>

type_synonym oid = string

record document =
  doc_id :: oid
  rest :: game_fields

text \<open>The response shape: \<^verbatim>\<open>{ id: _id.toString(), ...rest }\<close>.\<close>

record game_resp =
  resp_id :: string
  resp_rest :: game_fields

definition oid_toString :: "oid \<Rightarrow> string" where
  "oid_toString i = i"

definition toResp :: "document option \<Rightarrow> game_resp option" where
  "toResp doc = (case doc of None \<Rightarrow> None
     | Some d \<Rightarrow> Some \<lparr>resp_id = oid_toString (doc_id d), resp_rest = rest d\<rparr>)"

text \<open>
  \<^verbatim>\<open>ObjectId.isValid\<close> and \<^verbatim>\<open>new ObjectId\<close> belong to the driver. The handlers read
  \<^verbatim>\<open>r.value\<close> from \<^verbatim>\<open>findOneAndUpdate\<close>, the result shape of the driver before its
  version 6, whose identifier check accepts a string of twelve characters (taken as
  twelve bytes) or of 24 hexadecimal digits.
\<close>

definition is_hex :: "char \<Rightarrow> bool" where
  "is_hex c \<longleftrightarrow> c \<in> set ''0123456789abcdefABCDEF''"

definition ObjectId_isValid :: "string \<Rightarrow> bool" where
  "ObjectId_isValid s \<longleftrightarrow> length s = 12 \<or> (length s = 24 \<and> list_all is_hex s)"

definition lower_hex :: "char \<Rightarrow> char" where
  "lower_hex c = (if c \<in> set ''ABCDEF'' then char_of (of_char c + (32::nat)) else c)"

definition hex_of_byte :: "char \<Rightarrow> string" where
  "hex_of_byte c =
     [''0123456789abcdef'' ! ((of_char c :: nat) div 16),
      ''0123456789abcdef'' ! ((of_char c :: nat) mod 16)]"

definition new_ObjectId :: "string \<Rightarrow> oid" where
  "new_ObjectId s = (if length s = 12 then concat (map hex_of_byte s) else map lower_hex s)"

section \<open>The collection\<close>

text \<open>
  The collection is the list of its documents in insertion order. What a request takes
  from outside is its environment: the clock (\<^verbatim>\<open>new Date()\<close>), the identifier the driver
  generates for an insert, whether the store answers (a call to a store that does not
  throws, and every handler's \<^verbatim>\<open>catch\<close> answers 500), and the year the schema read at load.
  A store call returns \<open>None\<close> when it throws.
\<close>

record env =
  now :: int
  new_id :: oid
  store_up :: bool
  this_year :: int

type_synonym collection = "document list"

text \<open>\<^verbatim>\<open>insertOne\<close>: the \<^verbatim>\<open>_id\<close> index is unique, a duplicate key is an error.\<close>

definition insertOne :: "env \<Rightarrow> collection \<Rightarrow> game_fields \<Rightarrow> (collection \<times> oid) option" where
  "insertOne e docs f =
     (if \<not> store_up e \<or> new_id e \<in> doc_id ` set docs then None
      else Some (docs @ [\<lparr>doc_id = new_id e, rest = f\<rparr>], new_id e))"

definition findOne :: "env \<Rightarrow> collection \<Rightarrow> oid \<Rightarrow> document option option" where
  "findOne e docs i = (if \<not> store_up e then None else Some (find (\<lambda>d. doc_id d = i) docs))"

text \<open>A \<^verbatim>\<open>$set\<close> document: the named fields and the modification date.\<close>

definition get_field :: "string \<Rightarrow> game_fields \<Rightarrow> jsval" where
  "get_field k f =
     (if k = ''titre'' then titre f
      else if k = ''genre'' then genre f
      else if k = ''plateforme'' then plateforme f
      else if k = ''editeur'' then editeur f
      else if k = ''developpeur'' then developpeur f
      else if k = ''annee_sortie'' then annee_sortie f
      else if k = ''temps_jeu_heures'' then temps_jeu_heures f
      else if k = ''termine'' then termine f
      else if k = ''favorite'' then favorite f
      else JUndefined)"

definition set_field :: "string \<times> jsval \<Rightarrow> game_fields \<Rightarrow> game_fields" where
  "set_field kv f =
     (let k = fst kv; v = snd kv in
      if k = ''titre'' then f\<lparr>titre := v\<rparr>
      else if k = ''genre'' then f\<lparr>genre := v\<rparr>
      else if k = ''plateforme'' then f\<lparr>plateforme := v\<rparr>
      else if k = ''editeur'' then f\<lparr>editeur := v\<rparr>
      else if k = ''developpeur'' then f\<lparr>developpeur := v\<rparr>
      else if k = ''annee_sortie'' then f\<lparr>annee_sortie := v\<rparr>
      else if k = ''temps_jeu_heures'' then f\<lparr>temps_jeu_heures := v\<rparr>
      else if k = ''termine'' then f\<lparr>termine := v\<rparr>
      else if k = ''favorite'' then f\<lparr>favorite := v\<rparr>
      else f)"

definition apply_set :: "(string \<times> jsval) list \<Rightarrow> int \<Rightarrow> document \<Rightarrow> document" where
  "apply_set kvs t d = d\<lparr>rest := (fold set_field kvs (rest d))\<lparr>date_modification := t\<rparr>\<rparr>"

fun update_first :: "(document \<Rightarrow> bool) \<Rightarrow> (document \<Rightarrow> document) \<Rightarrow> collection \<Rightarrow> collection" where
  "update_first P u [] = []"
| "update_first P u (d # ds) = (if P d then u d # ds else d # update_first P u ds)"

fun remove_first :: "(document \<Rightarrow> bool) \<Rightarrow> collection \<Rightarrow> collection" where
  "remove_first P [] = []"
| "remove_first P (d # ds) = (if P d then ds else d # remove_first P ds)"

text \<open>\<^verbatim>\<open>findOneAndUpdate(..., { returnDocument: 'after' })\<close>: the new collection and
  \<^verbatim>\<open>r.value\<close>.\<close>

definition findOneAndUpdate ::
  "env \<Rightarrow> collection \<Rightarrow> oid \<Rightarrow> (string \<times> jsval) list \<Rightarrow> int
     \<Rightarrow> (collection \<times> document option) option" where
  "findOneAndUpdate e docs i kvs t =
     (if \<not> store_up e then None
      else case find (\<lambda>d. doc_id d = i) docs of
             None \<Rightarrow> Some (docs, None)
           | Some d \<Rightarrow> Some (update_first (\<lambda>d. doc_id d = i) (apply_set kvs t) docs,
                             Some (apply_set kvs t d)))"

text \<open>\<^verbatim>\<open>deleteOne\<close>: the new collection and \<^verbatim>\<open>r.deletedCount\<close>.\<close>

definition deleteOne :: "env \<Rightarrow> collection \<Rightarrow> oid \<Rightarrow> (collection \<times> nat) option" where
  "deleteOne e docs i =
     (if \<not> store_up e then None
      else case find (\<lambda>d. doc_id d = i) docs of
             None \<Rightarrow> Some (docs, 0)
           | Some d \<Rightarrow> Some (remove_first (\<lambda>d. doc_id d = i) docs, 1))"

text \<open>
  A query filter is a list of equalities \<^verbatim>\<open>{ field: value }\<close>. The store's equality
  matches a field that equals the value, or an array field that contains it.
\<close>

fun eq_match :: "jsval \<Rightarrow> jsval \<Rightarrow> bool" where
  "eq_match (JArr xs) q = (JArr xs = q \<or> q \<in> set xs)"
| "eq_match v q = (v = q)"

definition matches :: "(string \<times> jsval) list \<Rightarrow> document \<Rightarrow> bool" where
  "matches flt d = list_all (\<lambda>kv. eq_match (get_field (fst kv) (rest d)) (snd kv)) flt"

text \<open>\<^verbatim>\<open>find(filter).sort({ date_ajout: -1 }).toArray()\<close>; documents of equal date stay in
  insertion order.\<close>

definition find_sorted :: "env \<Rightarrow> collection \<Rightarrow> (string \<times> jsval) list \<Rightarrow> document list option" where
  "find_sorted e docs flt =
     (if \<not> store_up e then None
      else Some (sort_key (\<lambda>d. - date_ajout (rest d)) (filter (matches flt) docs)))"

text \<open>\<^verbatim>\<open>find({}).toArray()\<close>.\<close>

definition find_all :: "env \<Rightarrow> collection \<Rightarrow> document list option" where
  "find_all e docs = (if \<not> store_up e then None else Some docs)"

section \<open>The handlers\<close>

text \<open>
  The four \<^verbatim>\<open>{ error: ... }\<close> bodies: \<open>IdInvalide\<close> is \<^verbatim>\<open>'id invalide'\<close> (the specification's
  InvalidIdError), \<open>NonTrouve\<close> is \<^verbatim>\<open>'non trouve'\<close> (NotFoundError), \<open>AucunChamp\<close> is
  \<^verbatim>\<open>'Aucun champ a mettre a jour'\<close> (NoFieldsError), \<open>ErreurServeur\<close> is
  \<^verbatim>\<open>'erreur serveur'\<close> (StoreUnavailableError). \<open>Errors\<close> is \<^verbatim>\<open>{ errors }\<close>
  (ValidationError).
\<close>

datatype message = IdInvalide | NonTrouve | AucunChamp | ErreurServeur

datatype body =
    Errors "verror list"
  | Error message
  | Game "game_resp option"
  | Games "game_resp option list"
  | Empty

record response =
  status :: nat
  headers :: "(string \<times> string) list"
  body :: body

definition reply :: "nat \<Rightarrow> body \<Rightarrow> response" where
  "reply st b = \<lparr>status = st, headers = [], body = b\<rparr>"

text \<open>\<^verbatim>\<open>POST /api/games\<close>, lines 66 to 93.\<close>

definition new_doc :: "env \<Rightarrow> payload \<Rightarrow> game_fields" where
  "new_doc e p =
     \<lparr>titre = js_get p ''titre'',
      genre = js_get p ''genre'',
      plateforme = js_get p ''plateforme'',
      editeur = js_or (js_get p ''editeur'') JNull,
      developpeur = js_or (js_get p ''developpeur'') JNull,
      annee_sortie = js_nullish (js_get p ''annee_sortie'') JNull,
      temps_jeu_heures = js_nullish (js_get p ''temps_jeu_heures'') (JNum 0),
      termine = JBool (truthy (js_get p ''termine'')),
      favorite = JBool (truthy (js_get p ''favorite'')),
      date_ajout = now e,
      date_modification = now e\<rparr>"

definition post_games :: "env \<Rightarrow> collection \<Rightarrow> payload \<Rightarrow> response \<times> collection" where
  "post_games e docs p =
     (let errors = validateGame (this_year e) p False in
      if errors \<noteq> [] then (reply 400 (Errors errors), docs)
      else case insertOne e docs (new_doc e p) of
             None \<Rightarrow> (reply 500 (Error ErreurServeur), docs)
           | Some (docs', insertedId) \<Rightarrow>
               (case findOne e docs' insertedId of
                  None \<Rightarrow> (reply 500 (Error ErreurServeur), docs')
                | Some inserted \<Rightarrow> (reply 201 (Game (toResp inserted)), docs')))"

text \<open>\<^verbatim>\<open>GET /api/games\<close>, lines 96 to 113. The query is the URL's parameters, each a
  string; repeated or bracketed parameters, which Express parses to arrays and objects,
  are not modelled.\<close>

type_synonym query = "string \<rightharpoonup> string"

definition list_filter :: "query \<Rightarrow> (string \<times> jsval) list" where
  "list_filter q =
     (case q ''genre'' of None \<Rightarrow> []
        | Some g \<Rightarrow> if g \<noteq> [] then [(''genre'', JStr g)] else [])
   @ (case q ''plateforme'' of None \<Rightarrow> []
        | Some g \<Rightarrow> if g \<noteq> [] then [(''plateforme'', JStr g)] else [])
   @ (if q ''termine'' = Some ''true'' then [(''termine'', JBool True)] else [])
   @ (if q ''termine'' = Some ''false'' then [(''termine'', JBool False)] else [])
   @ (if q ''favorite'' = Some ''true'' then [(''favorite'', JBool True)] else [])
   @ (if q ''favorite'' = Some ''false'' then [(''favorite'', JBool False)] else [])"

definition get_games :: "env \<Rightarrow> collection \<Rightarrow> query \<Rightarrow> response \<times> collection" where
  "get_games e docs q =
     (case find_sorted e docs (list_filter q) of
        None \<Rightarrow> (reply 500 (Error ErreurServeur), docs)
      | Some ds \<Rightarrow> (reply 200 (Games (map (\<lambda>d. toResp (Some d)) ds)), docs))"

text \<open>\<^verbatim>\<open>GET /api/games/:id\<close>, lines 116 to 127.\<close>

definition get_game :: "env \<Rightarrow> collection \<Rightarrow> string \<Rightarrow> response \<times> collection" where
  "get_game e docs i =
     (if \<not> ObjectId_isValid i then (reply 400 (Error IdInvalide), docs)
      else case findOne e docs (new_ObjectId i) of
             None \<Rightarrow> (reply 500 (Error ErreurServeur), docs)
           | Some None \<Rightarrow> (reply 404 (Error NonTrouve), docs)
           | Some (Some d) \<Rightarrow> (reply 200 (Game (toResp (Some d))), docs))"

text \<open>\<^verbatim>\<open>PUT /api/games/:id\<close>, lines 129 to 154.\<close>

definition allowed :: "string list" where
  "allowed = [''titre'', ''genre'', ''plateforme'', ''editeur'', ''developpeur'',
              ''annee_sortie'', ''temps_jeu_heures'', ''termine'', ''favorite'']"

definition build_set :: "payload \<Rightarrow> (string \<times> jsval) list" where
  "build_set p =
     concat (map (\<lambda>k. if js_get p k \<noteq> JUndefined then [(k, js_get p k)] else []) allowed)"

definition put_game :: "env \<Rightarrow> collection \<Rightarrow> string \<Rightarrow> payload \<Rightarrow> response \<times> collection" where
  "put_game e docs i p =
     (if \<not> ObjectId_isValid i then (reply 400 (Error IdInvalide), docs)
      else let errors = validateGame (this_year e) p True in
      if errors \<noteq> [] then (reply 400 (Errors errors), docs)
      else let st = build_set p in
      if length st = 0 then (reply 400 (Error AucunChamp), docs)
      else case findOneAndUpdate e docs (new_ObjectId i) st (now e) of
             None \<Rightarrow> (reply 500 (Error ErreurServeur), docs)
           | Some (docs', None) \<Rightarrow> (reply 404 (Error NonTrouve), docs')
           | Some (docs', Some d) \<Rightarrow> (reply 200 (Game (toResp (Some d))), docs'))"

text \<open>\<^verbatim>\<open>DELETE /api/games/:id\<close>, lines 156 to 167.\<close>

definition delete_game :: "env \<Rightarrow> collection \<Rightarrow> string \<Rightarrow> response \<times> collection" where
  "delete_game e docs i =
     (if \<not> ObjectId_isValid i then (reply 400 (Error IdInvalide), docs)
      else case deleteOne e docs (new_ObjectId i) of
             None \<Rightarrow> (reply 500 (Error ErreurServeur), docs)
           | Some (docs', deletedCount) \<Rightarrow>
               if deletedCount = 0 then (reply 404 (Error NonTrouve), docs')
               else (reply 204 Empty, docs'))"

text \<open>\<^verbatim>\<open>POST /api/games/:id/favorite\<close>, lines 169 to 185.\<close>

definition post_favorite :: "env \<Rightarrow> collection \<Rightarrow> string \<Rightarrow> response \<times> collection" where
  "post_favorite e docs i =
     (if \<not> ObjectId_isValid i then (reply 400 (Error IdInvalide), docs)
      else case findOne e docs (new_ObjectId i) of
             None \<Rightarrow> (reply 500 (Error ErreurServeur), docs)
           | Some None \<Rightarrow> (reply 404 (Error NonTrouve), docs)
           | Some (Some g) \<Rightarrow>
               (case findOneAndUpdate e docs (new_ObjectId i)
                       [(''favorite'', JBool (\<not> truthy (favorite (rest g))))] (now e) of
                  None \<Rightarrow> (reply 500 (Error ErreurServeur), docs)
                | Some (docs', value) \<Rightarrow> (reply 200 (Game (toResp value)), docs')))"

text \<open>\<^verbatim>\<open>GET /api/games/export\<close>, lines 201 to 210.\<close>

definition get_export :: "env \<Rightarrow> collection \<Rightarrow> response \<times> collection" where
  "get_export e docs =
     (case find_all e docs of
        None \<Rightarrow> (reply 500 (Error ErreurServeur), docs)
      | Some ds \<Rightarrow>
          (\<lparr>status = 200,
            headers = [(''Content-Disposition'', ''attachment; filename=games.json'')],
            body = Games (map (\<lambda>d. toResp (Some d)) ds)\<rparr>, docs))"

section \<open>The routes\<close>

text \<open>
  Express keeps the routes in the order the module registers them and runs the first one
  whose method and path match the request. A path is its list of segments; a \<^verbatim>\<open>:id\<close>
  segment of a pattern matches any one non-empty segment and captures it.
\<close>

datatype meth = GET | POST | PUT | DELETE

datatype seg = Lit string | Param

datatype endpoint =
    CreateGame | ListGames | GetGame | UpdateGame | DeleteGame | ToggleFavorite
  | Stats | Export

definition routes :: "(meth \<times> seg list \<times> endpoint) list" where
  "routes =
    [(POST, [Lit ''api'', Lit ''games''], CreateGame),
     (GET, [Lit ''api'', Lit ''games''], ListGames),
     (GET, [Lit ''api'', Lit ''games'', Param], GetGame),
     (PUT, [Lit ''api'', Lit ''games'', Param], UpdateGame),
     (DELETE, [Lit ''api'', Lit ''games'', Param], DeleteGame),
     (POST, [Lit ''api'', Lit ''games'', Param, Lit ''favorite''], ToggleFavorite),
     (GET, [Lit ''api'', Lit ''stats''], Stats),
     (GET, [Lit ''api'', Lit ''games'', Lit ''export''], Export)]"

fun match_path :: "seg list \<Rightarrow> string list \<Rightarrow> string list option" where
  "match_path [] [] = Some []"
| "match_path (Lit l # ps) (x # xs) = (if l = x then match_path ps xs else None)"
| "match_path (Param # ps) (x # xs) =
     (if x \<noteq> [] then map_option ((#) x) (match_path ps xs) else None)"
| "match_path ps xs = None"

fun first_route ::
  "(meth \<times> seg list \<times> endpoint) list \<Rightarrow> meth \<Rightarrow> string list \<Rightarrow> (endpoint \<times> string list) option" where
  "first_route [] m path = None"
| "first_route ((m', pat, ep) # rs) m path =
     (if m' = m then
        (case match_path pat path of
           Some params \<Rightarrow> Some (ep, params)
         | None \<Rightarrow> first_route rs m path)
      else first_route rs m path)"

record request =
  req_method :: meth
  req_path :: "string list"
  req_query :: query
  req_body :: payload

text \<open>
  The answer of the application to a request. The statistics handler and the static
  files behind the routes are outside this development: for them, and for a request no
  route matches, \<open>serve\<close> gives \<open>None\<close>. \<^verbatim>\<open>req.params.id\<close> is the segment the route
  captured.
\<close>

fun run_endpoint ::
  "env \<Rightarrow> collection \<Rightarrow> request \<Rightarrow> endpoint \<Rightarrow> string list \<Rightarrow> (response \<times> collection) option" where
  "run_endpoint e docs r CreateGame params = Some (post_games e docs (req_body r))"
| "run_endpoint e docs r ListGames params = Some (get_games e docs (req_query r))"
| "run_endpoint e docs r GetGame (i # params) = Some (get_game e docs i)"
| "run_endpoint e docs r UpdateGame (i # params) = Some (put_game e docs i (req_body r))"
| "run_endpoint e docs r DeleteGame (i # params) = Some (delete_game e docs i)"
| "run_endpoint e docs r ToggleFavorite (i # params) = Some (post_favorite e docs i)"
| "run_endpoint e docs r Export params = Some (get_export e docs)"
| "run_endpoint e docs r ep params = None"

definition serve :: "env \<Rightarrow> collection \<Rightarrow> request \<Rightarrow> (response \<times> collection) option" where
  "serve e docs r =
     (case first_route routes (req_method r) (req_path r) of
        None \<Rightarrow> None
      | Some (ep, params) \<Rightarrow> run_endpoint e docs r ep params)"

section \<open>Sequences of operations\<close>

text \<open>
  The collection is written by four operations only. A history is a list of operations,
  each with the environment of its request, run from a collection onwards; failed
  operations leave what their handler leaves.
\<close>

datatype op =
    Create payload
  | Update string payload
  | ToggleFav string
  | Delete string

fun step :: "env \<Rightarrow> collection \<Rightarrow> op \<Rightarrow> collection" where
  "step e docs (Create p) = snd (post_games e docs p)"
| "step e docs (Update i p) = snd (put_game e docs i p)"
| "step e docs (ToggleFav i) = snd (post_favorite e docs i)"
| "step e docs (Delete i) = snd (delete_game e docs i)"

fun run :: "collection \<Rightarrow> (env \<times> op) list \<Rightarrow> collection" where
  "run docs [] = docs"
| "run docs (eo # rest_ops) = run (step (fst eo) docs (snd eo)) rest_ops"

text \<open>The constraint of the data model on \<^verbatim>\<open>titre\<close> (a string, non-empty after trimming),
  and what the update path keeps of it (null, or a string of length at least 1).\<close>

fun titre_trimmed :: "jsval \<Rightarrow> bool" where
  "titre_trimmed (JStr s) = (js_trim s \<noteq> [])"
| "titre_trimmed v = False"

fun titre_kept :: "jsval \<Rightarrow> bool" where
  "titre_kept (JStr s) = (s \<noteq> [])"
| "titre_kept JNull = True"
| "titre_kept v = False"

text \<open>What \<^verbatim>\<open>termine\<close> holds in a document the handlers wrote: a boolean or null.\<close>

fun bool_or_null :: "jsval \<Rightarrow> bool" where
  "bool_or_null (JBool b) = True"
| "bool_or_null JNull = True"
| "bool_or_null v = False"

text \<open>What every handler keeps true of a stored record.\<close>

definition kept :: "document \<Rightarrow> bool" where
  "kept d \<longleftrightarrow> titre_kept (titre (rest d)) \<and> bool_or_null (termine (rest d))"

section \<open>The validator as the specification words it\<close>

text \<open>
  The specification's validator applies three checks to each declared field, and every
  violation gives its own message: the presence check (create mode only: a required field
  that is absent, null, a blank string or an empty sequence), the type check (a present
  and non-null value of the wrong type), and the range or length check (a number out of
  its bounds, a sequence or a string that is too short).
\<close>

definition spec_presence :: "bool \<Rightarrow> string \<Rightarrow> rule \<Rightarrow> jsval \<Rightarrow> verror list" where
  "spec_presence isUpdate key s v =
     (if \<not> isUpdate \<and> required s \<and> missing v then [Requis key] else [])"

definition spec_type :: "string \<Rightarrow> rule \<Rightarrow> jsval \<Rightarrow> verror list" where
  "spec_type key s v =
     (if v = JUndefined \<or> v = JNull then []
      else case rtype s of
             TString \<Rightarrow> if is_string v then [] else [DoitEtreChaine key]
           | TArray \<Rightarrow> if is_array v then [] else [DoitEtreTableau key]
           | TNumber \<Rightarrow> if is_number v then [] else [DoitEtreNombre key]
           | TBoolean \<Rightarrow> if is_boolean v then [] else [DoitEtreBoolean key])"

definition spec_range :: "string \<Rightarrow> rule \<Rightarrow> jsval \<Rightarrow> verror list" where
  "spec_range key s v =
     (case rmin s of Some m \<Rightarrow> if num_below v m then [DoitEtreGe key m] else [] | None \<Rightarrow> [])
   @ (case rmax s of Some m \<Rightarrow> if num_above v m then [DoitEtreLe key m] else [] | None \<Rightarrow> [])
   @ (case minItems s of Some n \<Rightarrow> if arr_shorter v n then [AuMoins key n] else []
        | None \<Rightarrow> [])
   @ (case minLength s of Some n \<Rightarrow> if str_shorter v n then [TropCourt key] else []
        | None \<Rightarrow> [])"

definition spec_field :: "payload \<Rightarrow> bool \<Rightarrow> string \<times> rule \<Rightarrow> verror list" where
  "spec_field p isUpdate kr =
     spec_presence isUpdate (fst kr) (snd kr) (js_get p (fst kr))
   @ spec_type (fst kr) (snd kr) (js_get p (fst kr))
   @ spec_range (fst kr) (snd kr) (js_get p (fst kr))"

definition spec_validate :: "int \<Rightarrow> payload \<Rightarrow> bool \<Rightarrow> verror list" where
  "spec_validate year p isUpdate = concat (map (spec_field p isUpdate) (gameSchema year))"

section \<open>The list filters as the specification words them\<close>

text \<open>
  The specification's reading of a filter mapping: \<^verbatim>\<open>genre\<close> and \<^verbatim>\<open>plateforme\<close>, when given
  and not empty, must match the record's field by the store's equality; \<^verbatim>\<open>termine\<close> and
  \<^verbatim>\<open>favorite\<close> are applied only when they are the string "true" or "false", and any other
  value of theirs is ignored.
\<close>

definition wanted :: "query \<Rightarrow> document \<Rightarrow> bool" where
  "wanted q d \<longleftrightarrow>
     (case q ''genre'' of None \<Rightarrow> True
        | Some g \<Rightarrow> g = [] \<or> eq_match (genre (rest d)) (JStr g)) \<and>
     (case q ''plateforme'' of None \<Rightarrow> True
        | Some g \<Rightarrow> g = [] \<or> eq_match (plateforme (rest d)) (JStr g)) \<and>
     (if q ''termine'' = Some ''true'' then eq_match (termine (rest d)) (JBool True)
      else if q ''termine'' = Some ''false'' then eq_match (termine (rest d)) (JBool False)
      else True) \<and>
     (if q ''favorite'' = Some ''true'' then eq_match (favorite (rest d)) (JBool True)
      else if q ''favorite'' = Some ''false'' then eq_match (favorite (rest d)) (JBool False)
      else True)"

section \<open>Sample inputs\<close>

text \<open>The payload \<^verbatim>\<open>{titre:"Celeste", genre:["platformer"], plateforme:["PC"]}\<close> of the
  specification's examples, and an environment whose store answers.\<close>

definition celeste :: payload where
  "celeste = [''titre'' \<mapsto> JStr ''Celeste'', ''genre'' \<mapsto> JArr [JStr ''platformer''],
              ''plateforme'' \<mapsto> JArr [JStr ''PC'']]"

definition env0 :: env where
  "env0 = \<lparr>now = 1000, new_id = ''0123456789abcdef01234567'', store_up = True,
           this_year = 2025\<rparr>"

definition id0 :: string where
  "id0 = ''0123456789abcdef01234567''"

text \<open>The Celeste record as \<^verbatim>\<open>POST /api/games\<close> stores it under \<open>env0\<close>.\<close>

definition celeste_doc :: document where
  "celeste_doc = \<lparr>doc_id = ''0123456789abcdef01234567'', rest =
      \<lparr>titre = JStr ''Celeste'', genre = JArr [JStr ''platformer''],
       plateforme = JArr [JStr ''PC''], editeur = JNull, developpeur = JNull,
       annee_sortie = JNull, temps_jeu_heures = JNum 0, termine = JBool False,
       favorite = JBool False, date_ajout = 1000, date_modification = 1000\<rparr>\<rparr>"

text \<open>A second record, finished and added later.\<close>

definition hades_doc :: document where
  "hades_doc = \<lparr>doc_id = ''0123456789abcdef01234568'', rest =
      \<lparr>titre = JStr ''Hades'', genre = JArr [JStr ''roguelike''],
       plateforme = JArr [JStr ''PC''], editeur = JNull, developpeur = JNull,
       annee_sortie = JNum 2020, temps_jeu_heures = JNum 40, termine = JBool True,
       favorite = JBool True, date_ajout = 2000, date_modification = 2000\<rparr>\<rparr>"

section \<open>Properties of the validator\<close>

lemma validateKey_field: "x \<in> set (validateKey p u kr) \<Longrightarrow> err_field x = fst kr"
  by (auto simp: validateKey_def value_checks_def Let_def split: if_splits option.splits)

lemma validateGame_fields:
  "x \<in> set (validateGame year p u) \<Longrightarrow> err_field x \<in> fst ` set (gameSchema year)"
  by (auto simp: validateGame_def dest: validateKey_field)

lemma validateKey_other:
  "fst kr \<noteq> k \<Longrightarrow> validateKey (p(k := w)) u kr = validateKey p u kr"
  by (simp add: validateKey_def js_get_def)

lemma validateGame_other:
  assumes "k \<notin> fst ` set (gameSchema year)"
  shows "validateGame year (p(k := w)) u = validateGame year p u"
proof -
  have "validateKey (p(k := w)) u kr = validateKey p u kr" if "kr \<in> set (gameSchema year)" for kr
  proof (rule validateKey_other)
    from that assms show "fst kr \<noteq> k" by auto
  qed
  then have "map (validateKey (p(k := w)) u) (gameSchema year) = map (validateKey p u) (gameSchema year)"
    by simp
  then show ?thesis by (simp only: validateGame_def)
qed

lemma favorite_not_schema: "''favorite'' \<notin> fst ` set (gameSchema year)"
  by (simp add: gameSchema_def)

lemma termine_checked:
  assumes "js_get p ''termine'' \<noteq> JUndefined" and "js_get p ''termine'' \<noteq> JNull"
    and "\<not> is_boolean (js_get p ''termine'')"
  shows "DoitEtreBoolean ''termine'' \<in> set (validateGame year p u)"
  using assms by (simp add: validateGame_def gameSchema_def validateKey_def value_checks_def)

lemma celeste_valid: "validateGame year celeste False = []"
  by (simp add: validateGame_def gameSchema_def validateKey_def celeste_def js_get_def
      missing_def value_checks_def js_trim_def is_ws_def)

text \<open>
  C2, as the code has it. \<^verbatim>\<open>favorite\<close> is not a key of \<^verbatim>\<open>gameSchema\<close>: in both modes the
  validator returns no error for \<^verbatim>\<open>favorite\<close>, and its result does not depend on the
  payload's \<^verbatim>\<open>favorite\<close>. The boolean type check is the one of \<^verbatim>\<open>termine\<close>: a \<^verbatim>\<open>termine\<close>
  that is present, not null and not a boolean gives the error "termine doit etre boolean".
\<close>

theorem validate_never_checks_favorite:
  "''favorite'' \<notin> err_field ` set (validateGame year p u) \<and>
   validateGame year (p(''favorite'' := w)) u = validateGame year p u \<and>
   (js_get p ''termine'' \<noteq> JUndefined \<and> js_get p ''termine'' \<noteq> JNull \<and>
    \<not> is_boolean (js_get p ''termine'')
      \<longrightarrow> DoitEtreBoolean ''termine'' \<in> set (validateGame year p u))"
proof (intro conjI impI)
  show "''favorite'' \<notin> err_field ` set (validateGame year p u)"
  proof
    assume "''favorite'' \<in> err_field ` set (validateGame year p u)"
    then obtain x where "x \<in> set (validateGame year p u)" and "err_field x = ''favorite''"
      by auto
    with validateGame_fields[of x year p u] favorite_not_schema[of year] show False
      by simp
  qed
  show "validateGame year (p(''favorite'' := w)) u = validateGame year p u"
    by (rule validateGame_other[OF favorite_not_schema])
  show "DoitEtreBoolean ''termine'' \<in> set (validateGame year p u)"
    if "js_get p ''termine'' \<noteq> JUndefined \<and> js_get p ''termine'' \<noteq> JNull \<and>
        \<not> is_boolean (js_get p ''termine'')"
    using that by (simp add: termine_checked)
qed

theorem validate_never_checks_favorite_witness:
  "''favorite'' \<notin> err_field ` set (validateGame 2025
       [''termine'' \<mapsto> JStr ''yes'', ''favorite'' \<mapsto> JNum 1] True) \<and>
   DoitEtreBoolean ''termine'' \<in> set (validateGame 2025
       [''termine'' \<mapsto> JStr ''yes'', ''favorite'' \<mapsto> JNum 1] True)"
  using validate_never_checks_favorite
    [of 2025 "[''termine'' \<mapsto> JStr ''yes'', ''favorite'' \<mapsto> JNum 1]" True]
  by (simp add: js_get_def)

text \<open>C2 as stated fails: with \<^verbatim>\<open>favorite: "yes"\<close> added, the Celeste payload passes create
  validation with no error at all, and \<^verbatim>\<open>{favorite: "yes"}\<close> passes update validation.\<close>

theorem validate_accepts_string_favorite:
  "validateGame 2025 (celeste(''favorite'' \<mapsto> JStr ''yes'')) False = [] \<and>
   validateGame 2025 [''favorite'' \<mapsto> JStr ''yes''] True = []"
  by (simp add: validateGame_def gameSchema_def validateKey_def celeste_def js_get_def
      missing_def value_checks_def js_trim_def is_ws_def)

section \<open>Properties of the routes\<close>

lemma get_export_all:
  "store_up e \<Longrightarrow> get_export e docs =
     (\<lparr>status = 200,
       headers = [(''Content-Disposition'', ''attachment; filename=games.json'')],
       body = Games (map (\<lambda>d. toResp (Some d)) docs)\<rparr>, docs)"
  by (simp add: get_export_def find_all_def)

lemma match_three_literals:
  "match_path [Lit a, Lit b, Lit c] path = Some ps \<Longrightarrow> path = [a, b, c]"
proof (cases path)
  case Nil
  then show "match_path [Lit a, Lit b, Lit c] path = Some ps \<Longrightarrow> ?thesis" by simp
next
  case (Cons x xs)
  assume m: "match_path [Lit a, Lit b, Lit c] path = Some ps"
  show ?thesis
  proof (cases xs)
    case Nil
    with m Cons show ?thesis by (simp split: if_splits)
  next
    case c2: (Cons y ys)
    show ?thesis
    proof (cases ys)
      case Nil
      with m Cons c2 show ?thesis by (simp split: if_splits)
    next
      case c3: (Cons z zs)
      with m Cons c2 show ?thesis by (cases zs) (simp_all split: if_splits)
    qed
  qed
qed

lemma export_never_routed: "first_route routes m path \<noteq> Some (Export, ps)"
proof
  assume r: "first_route routes m path = Some (Export, ps)"
  show False
  proof (cases "match_path [Lit ''api'', Lit ''games'', Lit ''export''] path")
    case None
    with r show False
      by (cases m) (simp_all add: routes_def split: option.splits)
  next
    case (Some qs)
    then have "path = [''api'', ''games'', ''export'']"
      by (rule match_three_literals)
    with r show False
      by (cases m) (simp_all add: routes_def)
  qed
qed

text \<open>
  C1, at the request \<^verbatim>\<open>GET /api/games/export\<close>. The route \<^verbatim>\<open>/api/games/:id\<close> is registered
  before \<^verbatim>\<open>/api/games/export\<close> and matches the path with \<^verbatim>\<open>id = "export"\<close>, which is not a
  valid identifier: whatever the collection, the application answers 400 "id invalide".
  No request at all is routed to the export handler, which by \<open>get_export_all\<close> would
  answer with every record mapped through \<^verbatim>\<open>toResp\<close>.
\<close>

theorem export_request_answered_by_get_game:
  "first_route routes GET [''api'', ''games'', ''export''] = Some (GetGame, [''export'']) \<and>
   serve e docs \<lparr>req_method = GET, req_path = [''api'', ''games'', ''export''],
                 req_query = q, req_body = b\<rparr>
     = Some (reply 400 (Error IdInvalide), docs) \<and>
   first_route routes m path \<noteq> Some (Export, ps)"
  using export_never_routed[of m path ps]
  by (simp add: serve_def routes_def get_game_def ObjectId_isValid_def)


section \<open>The validator against the specification's wording\<close>

lemma value_checks_spec:
  "v \<noteq> JUndefined \<Longrightarrow> v \<noteq> JNull \<Longrightarrow> value_checks key s v = spec_type key s v @ spec_range key s v"
  by (cases "rtype s") (simp_all add: value_checks_def spec_type_def spec_range_def)

lemma spec_nothing:
  "v = JUndefined \<or> v = JNull \<Longrightarrow> spec_type key s v @ spec_range key s v = []"
  by (auto simp: spec_type_def spec_range_def split: option.splits)

lemma validateKey_spec:
  "validateKey p u kr =
     (if \<not> u \<and> required (snd kr) \<and> missing (js_get p (fst kr)) then [Requis (fst kr)]
      else spec_field p u kr)"
  using value_checks_spec[of "js_get p (fst kr)" "fst kr" "snd kr"]
    spec_nothing[of "js_get p (fst kr)" "fst kr" "snd kr"]
  by (auto simp: validateKey_def spec_field_def spec_presence_def Let_def)

text \<open>
  C7, as the code has it. The validator accumulates across fields: its result is the
  concatenation, over the declared fields in the schema's order, of each field's errors.
  A field whose presence check fails (create mode) gives "requis" alone, since the
  callback returns there; any other field gives one error for each type, range or length
  rule it violates, as the specification words them. In particular every required field
  that is missing from a create payload has its "requis" in the list.
\<close>

theorem validate_accumulates_across_fields:
  "validateGame year p u =
     concat (map (\<lambda>kr. if \<not> u \<and> required (snd kr) \<and> missing (js_get p (fst kr))
                        then [Requis (fst kr)] else spec_field p u kr) (gameSchema year)) \<and>
   (\<forall>k \<in> {''titre'', ''genre'', ''plateforme''}.
      missing (js_get p k) \<longrightarrow> Requis k \<in> set (validateGame year p False))"
proof
  show "validateGame year p u =
     concat (map (\<lambda>kr. if \<not> u \<and> required (snd kr) \<and> missing (js_get p (fst kr))
                        then [Requis (fst kr)] else spec_field p u kr) (gameSchema year))"
  proof -
    have "validateKey p u =
      (\<lambda>kr. if \<not> u \<and> required (snd kr) \<and> missing (js_get p (fst kr))
            then [Requis (fst kr)] else spec_field p u kr)"
      by (rule ext) (rule validateKey_spec)
    then show ?thesis by (simp only: validateGame_def)
  qed
  show "\<forall>k \<in> {''titre'', ''genre'', ''plateforme''}.
      missing (js_get p k) \<longrightarrow> Requis k \<in> set (validateGame year p False)"
    by (simp add: validateGame_def gameSchema_def validateKey_def)
qed

theorem validate_accumulates_across_fields_witness:
  "Requis ''titre'' \<in> set (validateGame 2025 Map.empty False) \<and>
   Requis ''genre'' \<in> set (validateGame 2025 Map.empty False) \<and>
   Requis ''plateforme'' \<in> set (validateGame 2025 Map.empty False)"
  using validate_accumulates_across_fields[of 2025 Map.empty False, THEN conjunct2]
  by (simp add: js_get_def missing_def)

text \<open>C7 as stated fails: in create mode the empty \<^verbatim>\<open>titre\<close> violates the presence rule
  and the minimum length rule, and the validator returns one error for the two.\<close>

theorem blank_titre_reports_presence_only:
  "validateGame 2025 (celeste(''titre'' \<mapsto> JStr '''')) False = [Requis ''titre''] \<and>
   spec_validate 2025 (celeste(''titre'' \<mapsto> JStr '''')) False
     = [Requis ''titre'', TropCourt ''titre'']"
  by (simp add: validateGame_def spec_validate_def spec_field_def spec_presence_def
      spec_type_def spec_range_def gameSchema_def validateKey_def celeste_def js_get_def
      missing_def value_checks_def js_trim_def is_ws_def)

section \<open>Properties of the handlers\<close>

lemma find_id_None: "find (\<lambda>d. doc_id d = i) docs = None \<longleftrightarrow> i \<notin> doc_id ` set docs"
  by (induction docs) auto

lemma find_fresh_append:
  "i \<notin> doc_id ` set docs \<Longrightarrow> find (\<lambda>d. doc_id d = i) (docs @ [d']) = (if doc_id d' = i then Some d' else None)"
  by (induction docs) auto

lemma remove_first_absent:
  "distinct (map doc_id docs) \<Longrightarrow> i \<notin> doc_id ` set (remove_first (\<lambda>d. doc_id d = i) docs)"
  by (induction docs) auto

lemma post_games_accepted:
  assumes "validateGame (this_year e) p False = []" and "store_up e"
    and "new_id e \<notin> doc_id ` set docs"
  shows "post_games e docs p =
     (reply 201 (Game (Some \<lparr>resp_id = new_id e, resp_rest = new_doc e p\<rparr>)),
      docs @ [\<lparr>doc_id = new_id e, rest = new_doc e p\<rparr>])"
  using assms
  by (simp add: post_games_def insertOne_def findOne_def find_fresh_append toResp_def
      oid_toString_def)

lemma id0_valid: "ObjectId_isValid id0"
  by (simp add: ObjectId_isValid_def id0_def is_hex_def)

lemma id0_oid: "new_ObjectId id0 = ''0123456789abcdef01234567''"
  by (simp add: new_ObjectId_def id0_def lower_hex_def)

text \<open>
  C9. Creating the Celeste payload succeeds with status 201 whenever the store answers and
  the generated identifier is new: the record has \<^verbatim>\<open>temps_jeu_heures\<close> 0, \<^verbatim>\<open>termine\<close> and
  \<^verbatim>\<open>favorite\<close> false, and \<^verbatim>\<open>date_ajout\<close> and \<^verbatim>\<open>date_modification\<close> both equal to the
  time of the request.
\<close>

theorem create_celeste:
  assumes "store_up e" and "new_id e \<notin> doc_id ` set docs"
  shows "post_games e docs celeste =
     (reply 201 (Game (Some \<lparr>resp_id = new_id e, resp_rest =
        \<lparr>titre = JStr ''Celeste'', genre = JArr [JStr ''platformer''],
         plateforme = JArr [JStr ''PC''], editeur = JNull, developpeur = JNull,
         annee_sortie = JNull, temps_jeu_heures = JNum 0, termine = JBool False,
         favorite = JBool False, date_ajout = now e, date_modification = now e\<rparr>\<rparr>)),
      docs @ [\<lparr>doc_id = new_id e, rest =
        \<lparr>titre = JStr ''Celeste'', genre = JArr [JStr ''platformer''],
         plateforme = JArr [JStr ''PC''], editeur = JNull, developpeur = JNull,
         annee_sortie = JNull, temps_jeu_heures = JNum 0, termine = JBool False,
         favorite = JBool False, date_ajout = now e, date_modification = now e\<rparr>\<rparr>])"
proof -
  have "new_doc e celeste =
        \<lparr>titre = JStr ''Celeste'', genre = JArr [JStr ''platformer''],
         plateforme = JArr [JStr ''PC''], editeur = JNull, developpeur = JNull,
         annee_sortie = JNull, temps_jeu_heures = JNum 0, termine = JBool False,
         favorite = JBool False, date_ajout = now e, date_modification = now e\<rparr>"
    by (simp add: new_doc_def celeste_def js_get_def js_or_def js_nullish_def)
  with post_games_accepted[OF celeste_valid assms] show ?thesis by simp
qed

theorem create_celeste_witness:
  "post_games env0 [] celeste =
     (reply 201 (Game (Some \<lparr>resp_id = ''0123456789abcdef01234567'', resp_rest =
        \<lparr>titre = JStr ''Celeste'', genre = JArr [JStr ''platformer''],
         plateforme = JArr [JStr ''PC''], editeur = JNull, developpeur = JNull,
         annee_sortie = JNull, temps_jeu_heures = JNum 0, termine = JBool False,
         favorite = JBool False, date_ajout = 1000, date_modification = 1000\<rparr>\<rparr>)),
      [\<lparr>doc_id = ''0123456789abcdef01234567'', rest =
        \<lparr>titre = JStr ''Celeste'', genre = JArr [JStr ''platformer''],
         plateforme = JArr [JStr ''PC''], editeur = JNull, developpeur = JNull,
         annee_sortie = JNull, temps_jeu_heures = JNum 0, termine = JBool False,
         favorite = JBool False, date_ajout = 1000, date_modification = 1000\<rparr>\<rparr>])"
  using create_celeste[of env0 "[]"] by (simp add: env0_def)


text \<open>
  C10. For every payload that create accepts, whatever is then put in \<^verbatim>\<open>favorite\<close> (any
  value, or nothing) is accepted too, and the record stored has in \<^verbatim>\<open>favorite\<close> and
  \<^verbatim>\<open>termine\<close> the booleans that the truthiness of the payload's values gives.
\<close>

theorem create_coerces_flags:
  assumes "validateGame (this_year e) p False = []" and "store_up e"
    and "new_id e \<notin> doc_id ` set docs"
  shows "validateGame (this_year e) (p(''favorite'' := w)) False = [] \<and>
     post_games e docs (p(''favorite'' := w)) =
       (reply 201 (Game (Some \<lparr>resp_id = new_id e,
                                resp_rest = new_doc e (p(''favorite'' := w))\<rparr>)),
        docs @ [\<lparr>doc_id = new_id e, rest = new_doc e (p(''favorite'' := w))\<rparr>]) \<and>
     favorite (new_doc e (p(''favorite'' := w)))
       = JBool (truthy (js_get (p(''favorite'' := w)) ''favorite'')) \<and>
     termine (new_doc e (p(''favorite'' := w)))
       = JBool (truthy (js_get (p(''favorite'' := w)) ''termine''))"
proof -
  have v: "validateGame (this_year e) (p(''favorite'' := w)) False = []"
    using assms(1) by (simp add: validateGame_other[OF favorite_not_schema])
  from post_games_accepted[OF v assms(2,3)] v show ?thesis
    by (simp add: new_doc_def)
qed

theorem create_coerces_flags_witness:
  "snd (post_games env0 [] (celeste(''favorite'' \<mapsto> JStr ''yes''))) =
     [\<lparr>doc_id = ''0123456789abcdef01234567'', rest =
        \<lparr>titre = JStr ''Celeste'', genre = JArr [JStr ''platformer''],
         plateforme = JArr [JStr ''PC''], editeur = JNull, developpeur = JNull,
         annee_sortie = JNull, temps_jeu_heures = JNum 0, termine = JBool False,
         favorite = JBool True, date_ajout = 1000, date_modification = 1000\<rparr>\<rparr>] \<and>
   snd (post_games env0 [] (celeste(''favorite'' \<mapsto> JNum 0))) =
     [\<lparr>doc_id = ''0123456789abcdef01234567'', rest =
        \<lparr>titre = JStr ''Celeste'', genre = JArr [JStr ''platformer''],
         plateforme = JArr [JStr ''PC''], editeur = JNull, developpeur = JNull,
         annee_sortie = JNull, temps_jeu_heures = JNum 0, termine = JBool False,
         favorite = JBool False, date_ajout = 1000, date_modification = 1000\<rparr>\<rparr>]"
proof -
  have a: "validateGame (this_year env0) celeste False = []" by (rule celeste_valid)
  have b: "store_up env0" by (simp add: env0_def)
  have c: "new_id env0 \<notin> doc_id ` set []" by simp
  show ?thesis
    using create_coerces_flags[OF a b c, of "Some (JStr ''yes'')"]
      create_coerces_flags[OF a b c, of "Some (JNum 0)"]
    by (simp add: env0_def new_doc_def celeste_def js_get_def js_or_def js_nullish_def)
qed

text \<open>
  C8. A malformed identifier gets 400 "id invalide" from every handler that takes one,
  whatever the store (also when it does not answer: the store is not consulted). A
  well-formed identifier that no record has gets 404 "non trouve" from get, delete and
  toggle. The two answers differ. Deleting again what a first delete removed gets 404.
\<close>

theorem id_failures_distinguished:
  "(\<not> ObjectId_isValid i \<longrightarrow>
      get_game e docs i = (reply 400 (Error IdInvalide), docs) \<and>
      delete_game e docs i = (reply 400 (Error IdInvalide), docs) \<and>
      put_game e docs i p = (reply 400 (Error IdInvalide), docs) \<and>
      post_favorite e docs i = (reply 400 (Error IdInvalide), docs)) \<and>
   (ObjectId_isValid i \<and> store_up e \<and> new_ObjectId i \<notin> doc_id ` set docs \<longrightarrow>
      get_game e docs i = (reply 404 (Error NonTrouve), docs) \<and>
      delete_game e docs i = (reply 404 (Error NonTrouve), docs) \<and>
      post_favorite e docs i = (reply 404 (Error NonTrouve), docs)) \<and>
   reply 400 (Error IdInvalide) \<noteq> reply 404 (Error NonTrouve) \<and>
   (ObjectId_isValid i \<and> store_up e \<and> store_up e' \<and> distinct (map doc_id docs) \<and>
    fst (delete_game e docs i) = reply 204 Empty \<longrightarrow>
      delete_game e' (snd (delete_game e docs i)) i
        = (reply 404 (Error NonTrouve), snd (delete_game e docs i)))"
proof (intro conjI impI)
  assume "\<not> ObjectId_isValid i"
  then show "get_game e docs i = (reply 400 (Error IdInvalide), docs)"
    and "delete_game e docs i = (reply 400 (Error IdInvalide), docs)"
    and "put_game e docs i p = (reply 400 (Error IdInvalide), docs)"
    and "post_favorite e docs i = (reply 400 (Error IdInvalide), docs)"
    by (simp_all add: get_game_def delete_game_def put_game_def post_favorite_def)
next
  assume h: "ObjectId_isValid i \<and> store_up e \<and> new_ObjectId i \<notin> doc_id ` set docs"
  then have "find (\<lambda>d. doc_id d = new_ObjectId i) docs = None"
    by (simp add: find_id_None)
  with h show "get_game e docs i = (reply 404 (Error NonTrouve), docs)"
    and "delete_game e docs i = (reply 404 (Error NonTrouve), docs)"
    and "post_favorite e docs i = (reply 404 (Error NonTrouve), docs)"
    by (simp_all add: get_game_def delete_game_def post_favorite_def findOne_def deleteOne_def)
next
  show "reply 400 (Error IdInvalide) \<noteq> reply 404 (Error NonTrouve)"
    by (simp add: reply_def)
next
  assume h: "ObjectId_isValid i \<and> store_up e \<and> store_up e' \<and> distinct (map doc_id docs) \<and>
    fst (delete_game e docs i) = reply 204 Empty"
  show "delete_game e' (snd (delete_game e docs i)) i
        = (reply 404 (Error NonTrouve), snd (delete_game e docs i))"
  proof (cases "find (\<lambda>d. doc_id d = new_ObjectId i) docs")
    case None
    with h show ?thesis
      by (simp add: delete_game_def deleteOne_def reply_def)
  next
    case (Some d)
    with h have s: "snd (delete_game e docs i) = remove_first (\<lambda>d. doc_id d = new_ObjectId i) docs"
      by (simp add: delete_game_def deleteOne_def)
    from h have "new_ObjectId i \<notin> doc_id ` set (remove_first (\<lambda>d. doc_id d = new_ObjectId i) docs)"
      by (simp add: remove_first_absent)
    then have "find (\<lambda>d. doc_id d = new_ObjectId i) (remove_first (\<lambda>d. doc_id d = new_ObjectId i) docs) = None"
      by (simp add: find_id_None)
    with h s show ?thesis
      by (simp add: delete_game_def deleteOne_def)
  qed
qed


theorem id_failures_distinguished_witness:
  "get_game (env0\<lparr>store_up := False\<rparr>) [celeste_doc] ''export''
     = (reply 400 (Error IdInvalide), [celeste_doc]) \<and>
   get_game env0 [] id0 = (reply 404 (Error NonTrouve), []) \<and>
   delete_game env0 [celeste_doc] id0 = (reply 204 Empty, []) \<and>
   delete_game env0 [] id0 = (reply 404 (Error NonTrouve), [])"
proof -
  have d: "delete_game env0 [celeste_doc] id0 = (reply 204 Empty, [])"
    by (simp add: delete_game_def id0_valid deleteOne_def id0_oid env0_def celeste_doc_def)
  have "\<not> ObjectId_isValid ''export''"
    by (simp add: ObjectId_isValid_def)
  then have a: "get_game (env0\<lparr>store_up := False\<rparr>) [celeste_doc] ''export''
     = (reply 400 (Error IdInvalide), [celeste_doc])"
    using id_failures_distinguished[of "''export''" "env0\<lparr>store_up := False\<rparr>" "[celeste_doc]"]
    by simp
  have b: "get_game env0 [] id0 = (reply 404 (Error NonTrouve), [])"
    using id_failures_distinguished[of id0 env0 "[]"] id0_valid
    by (simp add: env0_def)
  have c: "delete_game env0 [] id0 = (reply 404 (Error NonTrouve), [])"
    using id_failures_distinguished[of id0 env0 "[celeste_doc]" _ env0] id0_valid d
    by (simp add: env0_def)
  from a b c d show ?thesis by simp
qed

lemma validate_1969:
  "validateGame y [''annee_sortie'' \<mapsto> JNum 1969] True =
     DoitEtreGe ''annee_sortie'' 1970 #
       (if real_of_int y < 1969 then [DoitEtreLe ''annee_sortie'' (real_of_int y)] else [])"
  by (simp add: validateGame_def gameSchema_def validateKey_def js_get_def value_checks_def Let_def)

text \<open>
  C4. An update with \<^verbatim>\<open>{annee_sortie: 1969}\<close> is answered 400 and leaves the collection as it
  was, every field of every record included; for a well-formed identifier the answer is
  the validation error list, which holds "annee_sortie doit etre >= 1970".
\<close>

theorem update_below_minimum_year:
  "snd (put_game e docs i [''annee_sortie'' \<mapsto> JNum 1969]) = docs \<and>
   status (fst (put_game e docs i [''annee_sortie'' \<mapsto> JNum 1969])) = 400 \<and>
   (ObjectId_isValid i \<longrightarrow>
      fst (put_game e docs i [''annee_sortie'' \<mapsto> JNum 1969]) =
        reply 400 (Errors (DoitEtreGe ''annee_sortie'' 1970 #
          (if real_of_int (this_year e) < 1969
           then [DoitEtreLe ''annee_sortie'' (real_of_int (this_year e))] else []))))"
  by (simp add: put_game_def validate_1969 reply_def)

theorem update_below_minimum_year_witness:
  "put_game env0 [celeste_doc] id0 [''annee_sortie'' \<mapsto> JNum 1969] =
     (reply 400 (Errors [DoitEtreGe ''annee_sortie'' 1970]), [celeste_doc])"
  using update_below_minimum_year[of env0 "[celeste_doc]" id0] id0_valid
  by (simp add: env0_def prod_eq_iff)

lemma js_get_restrict: "k \<in> A \<Longrightarrow> js_get (p |` A) k = js_get p k"
  by (simp add: js_get_def)

lemma build_set_restrict: "build_set (p |` set allowed) = build_set p"
  unfolding build_set_def
  by (rule arg_cong[where f = concat], rule map_cong) (simp_all add: js_get_restrict)

lemma schema_keys_allowed: "fst ` set (gameSchema year) \<subseteq> set allowed"
  by (simp add: gameSchema_def allowed_def)

lemma validateKey_restrict:
  "fst kr \<in> A \<Longrightarrow> validateKey (p |` A) u kr = validateKey p u kr"
  by (simp add: validateKey_def js_get_restrict)

lemma validateGame_restrict:
  "validateGame year (p |` set allowed) u = validateGame year p u"
proof -
  have "validateKey (p |` set allowed) u kr = validateKey p u kr"
    if "kr \<in> set (gameSchema year)" for kr
  proof (rule validateKey_restrict)
    from that schema_keys_allowed[of year] show "fst kr \<in> set allowed" by auto
  qed
  then have "map (validateKey (p |` set allowed) u) (gameSchema year)
     = map (validateKey p u) (gameSchema year)"
    by simp
  then show ?thesis by (simp only: validateGame_def)
qed

lemma set_build_set:
  "set (build_set p) = {(k, js_get p k) |k. k \<in> set allowed \<and> js_get p k \<noteq> JUndefined}"
  by (auto simp: build_set_def)

lemma build_set_empty: "build_set p = [] \<longleftrightarrow> (\<forall>k\<in>set allowed. js_get p k = JUndefined)"
  by (auto simp: build_set_def)

lemma validate_empty: "validateGame year Map.empty True = []"
  by (simp add: validateGame_def gameSchema_def validateKey_def js_get_def)

lemma put_game_restrict: "put_game e docs i (p |` set allowed) = put_game e docs i p"
  by (simp only: put_game_def validateGame_restrict build_set_restrict)

lemma put_game_some_field:
  assumes "ObjectId_isValid i" and "validateGame (this_year e) p True = []"
    and "build_set p \<noteq> []"
  shows "body (fst (put_game e docs i p)) \<noteq> Error AucunChamp"
  using assms
  by (auto simp: put_game_def findOneAndUpdate_def reply_def Let_def
      split: option.splits if_splits)

text \<open>
  C5. For a well-formed identifier and a payload that passes update validation, the
  answer is 400 "Aucun champ a mettre a jour" exactly when the payload has none of the
  whitelisted keys, and the collection is then unchanged. The \<^verbatim>\<open>$set\<close> document holds the
  payload's whitelisted keys and nothing else, and the handler does with a payload what it
  does with its restriction to the whitelist. The empty payload gets that answer.
\<close>

theorem update_no_fields:
  assumes "ObjectId_isValid i" and "validateGame (this_year e) p True = []"
  shows "(fst (put_game e docs i p) = reply 400 (Error AucunChamp))
           = (\<forall>k\<in>set allowed. js_get p k = JUndefined) \<and>
         ((\<forall>k\<in>set allowed. js_get p k = JUndefined) \<longrightarrow> snd (put_game e docs i p) = docs) \<and>
         set (build_set p)
           = {(k, js_get p k) |k. k \<in> set allowed \<and> js_get p k \<noteq> JUndefined} \<and>
         put_game e docs i p = put_game e docs i (p |` set allowed) \<and>
         put_game e docs i Map.empty = (reply 400 (Error AucunChamp), docs)"
proof (intro conjI impI)
  show "(fst (put_game e docs i p) = reply 400 (Error AucunChamp))
           = (\<forall>k\<in>set allowed. js_get p k = JUndefined)"
  proof (cases "build_set p = []")
    case True
    with assms show ?thesis
      by (simp add: put_game_def build_set_empty[symmetric])
  next
    case False
    from put_game_some_field[OF assms False, of docs]
    have "fst (put_game e docs i p) \<noteq> reply 400 (Error AucunChamp)"
      by (auto simp: reply_def)
    with False show ?thesis by (simp add: build_set_empty)
  qed
  show "snd (put_game e docs i p) = docs" if "\<forall>k\<in>set allowed. js_get p k = JUndefined"
    using that assms by (simp add: put_game_def build_set_empty[symmetric])
  show "set (build_set p)
           = {(k, js_get p k) |k. k \<in> set allowed \<and> js_get p k \<noteq> JUndefined}"
    by (rule set_build_set)
  show "put_game e docs i p = put_game e docs i (p |` set allowed)"
    by (rule put_game_restrict[symmetric])
  show "put_game e docs i Map.empty = (reply 400 (Error AucunChamp), docs)"
    using assms(1) by (simp add: put_game_def validate_empty build_set_def js_get_def)
qed


theorem update_no_fields_witness:
  "fst (put_game env0 [celeste_doc] id0 [''note'' \<mapsto> JStr ''x''])
     = reply 400 (Error AucunChamp) \<and>
   snd (put_game env0 [celeste_doc] id0 [''note'' \<mapsto> JStr ''x'']) = [celeste_doc] \<and>
   put_game env0 [celeste_doc] id0 Map.empty
     = (reply 400 (Error AucunChamp), [celeste_doc])"
proof -
  have v: "validateGame (this_year env0) [''note'' \<mapsto> JStr ''x''] True = []"
    by (simp add: validateGame_def gameSchema_def validateKey_def js_get_def)
  show ?thesis
    using update_no_fields[OF id0_valid v, of "[celeste_doc]"]
    by (simp add: allowed_def js_get_def)
qed

section \<open>The list of games\<close>

lemma get_field_filter_keys:
  "get_field ''genre'' f = genre f"
  "get_field ''plateforme'' f = plateforme f"
  "get_field ''termine'' f = termine f"
  "get_field ''favorite'' f = favorite f"
  by (simp_all add: get_field_def)

lemma matches_wanted: "matches (list_filter q) d = wanted q d"
  by (simp add: matches_def list_filter_def wanted_def get_field_filter_keys
      split: option.splits)

lemma get_games_up:
  "store_up e \<Longrightarrow> get_games e docs q =
     (reply 200 (Games (map (\<lambda>d. toResp (Some d))
        (sort_key (\<lambda>d. - date_ajout (rest d)) (filter (wanted q) docs)))), docs)"
proof -
  have "matches (list_filter q) = wanted q"
    by (rule ext) (rule matches_wanted)
  then show "store_up e \<Longrightarrow> ?thesis"
    by (simp add: get_games_def find_sorted_def)
qed

lemma sorted_desc:
  "sorted_wrt (\<lambda>a b. date_ajout (rest b) \<le> date_ajout (rest a))
     (sort_key (\<lambda>d. - date_ajout (rest d)) xs)"
proof -
  have "sorted (map (\<lambda>d. - date_ajout (rest d)) (sort_key (\<lambda>d. - date_ajout (rest d)) xs))"
    by (rule sorted_sort_key)
  then show ?thesis by (simp add: sorted_map)
qed

lemma eq_match_bool: "bool_or_null v \<Longrightarrow> eq_match v (JBool b) = (v = JBool b)"
  by (cases v) auto

text \<open>
  C6. When the store answers, the list request is answered 200 with the records that the
  filter mapping wants (in the sense of \<open>wanted\<close>: \<^verbatim>\<open>termine\<close> and \<^verbatim>\<open>favorite\<close> count only as
  the strings "true" and "false"), each once, in descending order of \<^verbatim>\<open>date_ajout\<close>. With
  no filter, and with \<^verbatim>\<open>termine\<close> set to "maybe", these are all the records. With \<^verbatim>\<open>termine\<close>
  set to "true", on a collection whose \<^verbatim>\<open>termine\<close> fields are booleans or null (as in every
  collection the handlers wrote), these are the records whose \<^verbatim>\<open>termine\<close> is true.
\<close>

theorem list_applies_filters:
  assumes "store_up e"
  shows "(\<exists>ds. get_games e docs q = (reply 200 (Games (map (\<lambda>d. toResp (Some d)) ds)), docs) \<and>
            mset ds = mset (filter (wanted q) docs) \<and>
            sorted_wrt (\<lambda>a b. date_ajout (rest b) \<le> date_ajout (rest a)) ds) \<and>
         (\<exists>ds. get_games e docs Map.empty
                  = (reply 200 (Games (map (\<lambda>d. toResp (Some d)) ds)), docs) \<and>
            mset ds = mset docs) \<and>
         (\<exists>ds. get_games e docs [''termine'' \<mapsto> ''maybe'']
                  = (reply 200 (Games (map (\<lambda>d. toResp (Some d)) ds)), docs) \<and>
            mset ds = mset docs) \<and>
         ((\<forall>d\<in>set docs. bool_or_null (termine (rest d))) \<longrightarrow>
          (\<exists>ds. get_games e docs [''termine'' \<mapsto> ''true'']
                  = (reply 200 (Games (map (\<lambda>d. toResp (Some d)) ds)), docs) \<and>
            mset ds = mset (filter (\<lambda>d. termine (rest d) = JBool True) docs) \<and>
            sorted_wrt (\<lambda>a b. date_ajout (rest b) \<le> date_ajout (rest a)) ds))"
proof (intro conjI impI)
  let ?srt = "sort_key (\<lambda>d. - date_ajout (rest d))"
  show "\<exists>ds. get_games e docs q = (reply 200 (Games (map (\<lambda>d. toResp (Some d)) ds)), docs) \<and>
            mset ds = mset (filter (wanted q) docs) \<and>
            sorted_wrt (\<lambda>a b. date_ajout (rest b) \<le> date_ajout (rest a)) ds"
    using get_games_up[OF assms, of docs q] sorted_desc[of "filter (wanted q) docs"]
    by (intro exI[of _ "?srt (filter (wanted q) docs)"]) simp
  have all: "filter (wanted Map.empty) docs = docs"
    by (simp add: wanted_def)
  show "\<exists>ds. get_games e docs Map.empty
                  = (reply 200 (Games (map (\<lambda>d. toResp (Some d)) ds)), docs) \<and>
            mset ds = mset docs"
    using get_games_up[OF assms, of docs Map.empty] all
    by (intro exI[of _ "?srt docs"]) simp
  have maybe: "filter (wanted [''termine'' \<mapsto> ''maybe'']) docs = docs"
    by (simp add: wanted_def)
  show "\<exists>ds. get_games e docs [''termine'' \<mapsto> ''maybe'']
                  = (reply 200 (Games (map (\<lambda>d. toResp (Some d)) ds)), docs) \<and>
            mset ds = mset docs"
    using get_games_up[OF assms, of docs "[''termine'' \<mapsto> ''maybe'']"] maybe
    by (intro exI[of _ "?srt docs"]) simp
  assume inv: "\<forall>d\<in>set docs. bool_or_null (termine (rest d))"
  have "wanted [''termine'' \<mapsto> ''true''] d = (termine (rest d) = JBool True)"
    if "d \<in> set docs" for d
    using that inv by (simp add: wanted_def eq_match_bool)
  then have f: "filter (wanted [''termine'' \<mapsto> ''true'']) docs
      = filter (\<lambda>d. termine (rest d) = JBool True) docs"
    by (intro filter_cong) simp_all
  show "\<exists>ds. get_games e docs [''termine'' \<mapsto> ''true'']
                  = (reply 200 (Games (map (\<lambda>d. toResp (Some d)) ds)), docs) \<and>
            mset ds = mset (filter (\<lambda>d. termine (rest d) = JBool True) docs) \<and>
            sorted_wrt (\<lambda>a b. date_ajout (rest b) \<le> date_ajout (rest a)) ds"
    using get_games_up[OF assms, of docs "[''termine'' \<mapsto> ''true'']"] f
      sorted_desc[of "filter (\<lambda>d. termine (rest d) = JBool True) docs"]
    by (intro exI[of _ "?srt (filter (\<lambda>d. termine (rest d) = JBool True) docs)"]) simp
qed


theorem list_applies_filters_witness:
  "get_games env0 [celeste_doc, hades_doc] [''termine'' \<mapsto> ''true'']
     = (reply 200 (Games [toResp (Some hades_doc)]), [celeste_doc, hades_doc])"
proof -
  have up: "store_up env0" by (simp add: env0_def)
  have inv: "\<forall>d\<in>set [celeste_doc, hades_doc]. bool_or_null (termine (rest d))"
    by (simp add: celeste_doc_def hades_doc_def)
  have f: "filter (\<lambda>d. termine (rest d) = JBool True) [celeste_doc, hades_doc] = [hades_doc]"
    by (simp add: celeste_doc_def hades_doc_def)
  from list_applies_filters[OF up, of "[celeste_doc, hades_doc]"] inv
  obtain ds where g: "get_games env0 [celeste_doc, hades_doc] [''termine'' \<mapsto> ''true'']
        = (reply 200 (Games (map (\<lambda>d. toResp (Some d)) ds)), [celeste_doc, hades_doc])"
    and m: "mset ds = mset (filter (\<lambda>d. termine (rest d) = JBool True) [celeste_doc, hades_doc])"
    by blast
  from m f have "ds = [hades_doc]" by simp
  with g show ?thesis by simp
qed

section \<open>What the operations keep of a record\<close>

lemma validate_parts:
  "validateGame year p u = [] \<Longrightarrow> kr \<in> set (gameSchema year) \<Longrightarrow> validateKey p u kr = []"
  by (auto simp: validateGame_def)

lemma titre_rule:
  "(''titre'', \<lparr>rtype = TString, required = True, rmin = None, rmax = None,
         minItems = None, minLength = Some 1\<rparr>) \<in> set (gameSchema year)"
  by (simp add: gameSchema_def)

lemma termine_rule:
  "(''termine'', \<lparr>rtype = TBoolean, required = False, rmin = None, rmax = None,
         minItems = None, minLength = None\<rparr>) \<in> set (gameSchema year)"
  by (simp add: gameSchema_def)

lemma create_titre:
  assumes "validateGame year p False = []"
  shows "titre_trimmed (js_get p ''titre'')"
  using validate_parts[OF assms titre_rule]
  by (cases "js_get p ''titre''")
     (auto simp: validateKey_def value_checks_def missing_def Let_def split: if_splits)

lemma update_titre:
  assumes "validateGame year p True = []"
  shows "js_get p ''titre'' = JUndefined \<or> titre_kept (js_get p ''titre'')"
  using validate_parts[OF assms titre_rule]
  by (cases "js_get p ''titre''")
     (auto simp: validateKey_def value_checks_def Let_def split: if_splits)

lemma update_termine:
  assumes "validateGame year p True = []"
  shows "js_get p ''termine'' = JUndefined \<or> bool_or_null (js_get p ''termine'')"
  using validate_parts[OF assms termine_rule]
  by (cases "js_get p ''termine''")
     (auto simp: validateKey_def value_checks_def Let_def split: if_splits)

lemma set_titre:
  "titre (fold set_field (build_set p) f)
     = (if js_get p ''titre'' \<noteq> JUndefined then js_get p ''titre'' else titre f)"
  by (simp add: build_set_def allowed_def set_field_def)

lemma set_termine:
  "termine (fold set_field (build_set p) f)
     = (if js_get p ''termine'' \<noteq> JUndefined then js_get p ''termine'' else termine f)"
  by (simp add: build_set_def allowed_def set_field_def)

lemma trimmed_kept: "titre_trimmed v \<Longrightarrow> titre_kept v"
  by (cases v) (auto simp: js_trim_def)


lemma update_first_pres:
  "\<forall>d\<in>set docs. Q d \<Longrightarrow> (\<And>d. Q d \<Longrightarrow> Q (u d)) \<Longrightarrow> \<forall>d\<in>set (update_first P u docs). Q d"
  by (induction docs) auto

lemma remove_first_subset: "set (remove_first P docs) \<subseteq> set docs"
  by (induction docs) auto

lemma post_games_pres:
  assumes "\<forall>d\<in>set docs. Q d"
    and "validateGame (this_year e) p False = [] \<Longrightarrow> Q \<lparr>doc_id = new_id e, rest = new_doc e p\<rparr>"
  shows "\<forall>d\<in>set (snd (post_games e docs p)). Q d"
  using assms
  by (auto simp: post_games_def insertOne_def findOne_def Let_def split: if_splits option.splits)

lemma put_game_pres:
  assumes "\<forall>d\<in>set docs. Q d"
    and "\<And>d. validateGame (this_year e) p True = [] \<Longrightarrow> Q d
            \<Longrightarrow> Q (apply_set (build_set p) (now e) d)"
  shows "\<forall>d\<in>set (snd (put_game e docs i p)). Q d"
proof (cases "validateGame (this_year e) p True = []")
  case True
  with assms(2) have "\<And>d. Q d \<Longrightarrow> Q (apply_set (build_set p) (now e) d)" by simp
  from update_first_pres[OF assms(1) this] assms(1) show ?thesis
    by (auto simp: put_game_def findOneAndUpdate_def Let_def split: if_splits option.splits)
next
  case False
  with assms(1) show ?thesis by (simp add: put_game_def)
qed

lemma post_favorite_pres:
  assumes "\<forall>d\<in>set docs. Q d"
    and "\<And>d v. Q d \<Longrightarrow> Q (apply_set [(''favorite'', v)] (now e) d)"
  shows "\<forall>d\<in>set (snd (post_favorite e docs i)). Q d"
proof -
  have "\<forall>d\<in>set (update_first P (apply_set [(''favorite'', v)] (now e)) docs). Q d" for P v
    by (rule update_first_pres[OF assms(1)]) (rule assms(2))
  with assms(1) show ?thesis
    by (auto simp: post_favorite_def findOne_def findOneAndUpdate_def
        split: if_splits option.splits)
qed

lemma delete_game_pres:
  assumes "\<forall>d\<in>set docs. Q d"
  shows "\<forall>d\<in>set (snd (delete_game e docs i)). Q d"
  using assms remove_first_subset[of "\<lambda>d. doc_id d = new_ObjectId i" docs]
  by (auto simp: delete_game_def deleteOne_def split: if_splits option.splits)

lemma favorite_set_other:
  "titre (rest (apply_set [(''favorite'', v)] t d)) = titre (rest d)"
  "termine (rest (apply_set [(''favorite'', v)] t d)) = termine (rest d)"
  by (simp_all add: apply_set_def set_field_def)

lemma new_doc_kept:
  assumes "validateGame (this_year e) p False = []"
  shows "titre_trimmed (titre (new_doc e p))" and "bool_or_null (termine (new_doc e p))"
  using create_titre[OF assms] by (simp_all add: new_doc_def)

lemma update_kept:
  assumes "validateGame (this_year e) p True = []" and "kept d"
  shows "kept (apply_set (build_set p) (now e) d)"
  using update_titre[OF assms(1)] update_termine[OF assms(1)] assms(2)
  by (auto simp: kept_def apply_set_def set_titre set_termine)

lemma step_kept:
  assumes "\<forall>d\<in>set docs. kept d"
  shows "\<forall>d\<in>set (step e docs x). kept d"
proof (cases x)
  case (Create p)
  have "kept \<lparr>doc_id = new_id e, rest = new_doc e p\<rparr>"
    if "validateGame (this_year e) p False = []"
    using new_doc_kept[OF that] by (simp add: kept_def trimmed_kept)
  with post_games_pres[OF assms, of e p] Create show ?thesis by simp
next
  case (Update i p)
  have "\<forall>d\<in>set (snd (put_game e docs i p)). kept d"
    by (rule put_game_pres[OF assms]) (rule update_kept)
  with Update show ?thesis by simp
next
  case (ToggleFav i)
  have "kept (apply_set [(''favorite'', v)] (now e) d)" if "kept d" for d v
    using that by (simp add: kept_def favorite_set_other)
  with post_favorite_pres[OF assms, of e i] ToggleFav show ?thesis by simp
next
  case (Delete i)
  with delete_game_pres[OF assms, of e i] show ?thesis by simp
qed

lemma run_kept: "\<forall>d\<in>set docs. kept d \<Longrightarrow> \<forall>d\<in>set (run docs ops). kept d"
proof (induction ops arbitrary: docs)
  case Nil
  then show ?case by simp
next
  case (Cons eo ops)
  from step_kept[OF Cons.prems, of "fst eo" "snd eo"]
  have "\<forall>d\<in>set (run (step (fst eo) docs (snd eo)) ops). kept d"
    by (rule Cons.IH)
  then show ?case by simp
qed

lemma run_termine_boolean: "\<forall>d\<in>set (run [] ops). bool_or_null (termine (rest d))"
proof -
  have "\<forall>d\<in>set (run [] ops). kept d"
    by (rule run_kept) simp
  then show ?thesis by (simp add: kept_def)
qed

text \<open>
  C3, as the code has it. In every collection that a history of create, update, toggle
  and delete operations reaches from the empty one, each record's \<^verbatim>\<open>titre\<close> is null or a
  string of length at least 1. Create, toggle and delete keep the stronger property that
  every \<^verbatim>\<open>titre\<close> is a string that is not empty after trimming; update does not, since in
  update mode the presence check, which is where null and blank strings are refused, is
  skipped.
\<close>

theorem titre_after_updates:
  "(\<forall>d\<in>set (run [] ops). titre_kept (titre (rest d))) \<and>
   ((\<forall>d\<in>set docs. titre_trimmed (titre (rest d))) \<longrightarrow>
      (\<forall>d\<in>set (step e docs (Create p)). titre_trimmed (titre (rest d))) \<and>
      (\<forall>d\<in>set (step e docs (ToggleFav i)). titre_trimmed (titre (rest d))) \<and>
      (\<forall>d\<in>set (step e docs (Delete i)). titre_trimmed (titre (rest d))))"
proof (intro conjI impI)
  have "\<forall>d\<in>set (run [] ops). kept d"
    by (rule run_kept) simp
  then show "\<forall>d\<in>set (run [] ops). titre_kept (titre (rest d))"
    by (simp add: kept_def)
next
  assume t: "\<forall>d\<in>set docs. titre_trimmed (titre (rest d))"
  show "\<forall>d\<in>set (step e docs (Create p)). titre_trimmed (titre (rest d))"
    using post_games_pres[of docs "\<lambda>d. titre_trimmed (titre (rest d))" e p, OF t]
      new_doc_kept(1)[of e p]
    by simp
  show "\<forall>d\<in>set (step e docs (ToggleFav i)). titre_trimmed (titre (rest d))"
    using post_favorite_pres[of docs "\<lambda>d. titre_trimmed (titre (rest d))" e i, OF t]
    by (simp add: favorite_set_other)
  show "\<forall>d\<in>set (step e docs (Delete i)). titre_trimmed (titre (rest d))"
    using delete_game_pres[of docs "\<lambda>d. titre_trimmed (titre (rest d))" e i, OF t]
    by simp
qed


lemma create_celeste_doc: "snd (post_games env0 [] celeste) = [celeste_doc]"
proof -
  have "new_doc env0 celeste = rest celeste_doc"
    by (simp add: new_doc_def celeste_def celeste_doc_def env0_def js_get_def js_or_def
        js_nullish_def)
  moreover have "new_id env0 = doc_id celeste_doc"
    by (simp add: env0_def celeste_doc_def)
  moreover have "store_up env0" and "new_id env0 \<notin> doc_id ` set []"
    by (simp_all add: env0_def)
  ultimately show ?thesis
    using post_games_accepted[OF celeste_valid, of env0 "[]"] by simp
qed

lemma validate_titre_only:
  "validateGame year [''titre'' \<mapsto> v] True = validateKey [''titre'' \<mapsto> v] True
     (''titre'', \<lparr>rtype = TString, required = True, rmin = None, rmax = None,
         minItems = None, minLength = Some 1\<rparr>)"
  by (simp add: validateGame_def gameSchema_def validateKey_def js_get_def)

lemma build_set_titre_only: "v \<noteq> JUndefined \<Longrightarrow> build_set [''titre'' \<mapsto> v] = [(''titre'', v)]"
  by (simp add: build_set_def allowed_def js_get_def)

lemma put_titre_only:
  assumes "validateGame 2025 [''titre'' \<mapsto> v] True = []" and "v \<noteq> JUndefined"
  shows "put_game (env0\<lparr>now := 2000\<rparr>) [celeste_doc] id0 [''titre'' \<mapsto> v] =
     (reply 200 (Game (Some \<lparr>resp_id = ''0123456789abcdef01234567'', resp_rest =
        \<lparr>titre = v, genre = JArr [JStr ''platformer''],
         plateforme = JArr [JStr ''PC''], editeur = JNull, developpeur = JNull,
         annee_sortie = JNull, temps_jeu_heures = JNum 0, termine = JBool False,
         favorite = JBool False, date_ajout = 1000, date_modification = 2000\<rparr>\<rparr>)),
      [\<lparr>doc_id = ''0123456789abcdef01234567'', rest =
        \<lparr>titre = v, genre = JArr [JStr ''platformer''],
         plateforme = JArr [JStr ''PC''], editeur = JNull, developpeur = JNull,
         annee_sortie = JNull, temps_jeu_heures = JNum 0, termine = JBool False,
         favorite = JBool False, date_ajout = 1000, date_modification = 2000\<rparr>\<rparr>])"
  using assms
  by (simp add: put_game_def id0_valid id0_oid env0_def build_set_titre_only
      findOneAndUpdate_def celeste_doc_def apply_set_def set_field_def toResp_def
      oid_toString_def)

text \<open>C3 as stated fails: after the Celeste record is created, the update \<^verbatim>\<open>{titre: null}\<close>
  succeeds and stores null, and the update \<^verbatim>\<open>{titre: " "}\<close> stores the blank string.\<close>

theorem update_sets_titre_null:
  "snd (post_games env0 [] celeste) = [celeste_doc] \<and>
   put_game (env0\<lparr>now := 2000\<rparr>) [celeste_doc] id0 [''titre'' \<mapsto> JNull] =
     (reply 200 (Game (Some \<lparr>resp_id = ''0123456789abcdef01234567'', resp_rest =
        \<lparr>titre = JNull, genre = JArr [JStr ''platformer''],
         plateforme = JArr [JStr ''PC''], editeur = JNull, developpeur = JNull,
         annee_sortie = JNull, temps_jeu_heures = JNum 0, termine = JBool False,
         favorite = JBool False, date_ajout = 1000, date_modification = 2000\<rparr>\<rparr>)),
      [\<lparr>doc_id = ''0123456789abcdef01234567'', rest =
        \<lparr>titre = JNull, genre = JArr [JStr ''platformer''],
         plateforme = JArr [JStr ''PC''], editeur = JNull, developpeur = JNull,
         annee_sortie = JNull, temps_jeu_heures = JNum 0, termine = JBool False,
         favorite = JBool False, date_ajout = 1000, date_modification = 2000\<rparr>\<rparr>]) \<and>
   snd (put_game (env0\<lparr>now := 2000\<rparr>) [celeste_doc] id0 [''titre'' \<mapsto> JStr '' '']) =
      [\<lparr>doc_id = ''0123456789abcdef01234567'', rest =
        \<lparr>titre = JStr '' '', genre = JArr [JStr ''platformer''],
         plateforme = JArr [JStr ''PC''], editeur = JNull, developpeur = JNull,
         annee_sortie = JNull, temps_jeu_heures = JNum 0, termine = JBool False,
         favorite = JBool False, date_ajout = 1000, date_modification = 2000\<rparr>\<rparr>] \<and>
   \<not> titre_trimmed JNull \<and> \<not> titre_trimmed (JStr '' '')"
proof -
  have a: "validateGame 2025 [''titre'' \<mapsto> JNull] True = []"
    by (simp add: validate_titre_only validateKey_def js_get_def)
  have b: "validateGame 2025 [''titre'' \<mapsto> JStr '' ''] True = []"
    by (simp add: validate_titre_only validateKey_def js_get_def value_checks_def)
  have c: "\<not> titre_trimmed (JStr '' '')"
    by (simp add: js_trim_def is_ws_def)
  from create_celeste_doc put_titre_only[OF a] put_titre_only[OF b] c show ?thesis
    by simp
qed

theorem titre_after_updates_witness:
  "run [] [(env0, Create celeste), (env0\<lparr>now := 2000\<rparr>, Update id0 [''titre'' \<mapsto> JNull])] =
      [\<lparr>doc_id = ''0123456789abcdef01234567'', rest =
        \<lparr>titre = JNull, genre = JArr [JStr ''platformer''],
         plateforme = JArr [JStr ''PC''], editeur = JNull, developpeur = JNull,
         annee_sortie = JNull, temps_jeu_heures = JNum 0, termine = JBool False,
         favorite = JBool False, date_ajout = 1000, date_modification = 2000\<rparr>\<rparr>] \<and>
   list_all (\<lambda>d. titre_kept (titre (rest d)))
     (run [] [(env0, Create celeste), (env0\<lparr>now := 2000\<rparr>, Update id0 [''titre'' \<mapsto> JNull])]) \<and>
   list_all (\<lambda>d. titre_trimmed (titre (rest d))) [celeste_doc] \<and>
   list_all (\<lambda>d. titre_trimmed (titre (rest d))) (step env0 [celeste_doc] (ToggleFav id0))"
proof -
  let ?e2 = "env0\<lparr>now := 2000\<rparr>"
  let ?p = "[''titre'' \<mapsto> JNull]"
  let ?ops = "[(env0, Create celeste), (?e2, Update id0 ?p)]"
  have a: "validateGame 2025 ?p True = []"
    by (simp add: validate_titre_only validateKey_def js_get_def)
  have pt: "snd (put_game ?e2 [celeste_doc] id0 ?p) =
      [\<lparr>doc_id = ''0123456789abcdef01234567'', rest =
        \<lparr>titre = JNull, genre = JArr [JStr ''platformer''],
         plateforme = JArr [JStr ''PC''], editeur = JNull, developpeur = JNull,
         annee_sortie = JNull, temps_jeu_heures = JNum 0, termine = JBool False,
         favorite = JBool False, date_ajout = 1000, date_modification = 2000\<rparr>\<rparr>]"
    using put_titre_only[OF a] by simp
  have "run [] ?ops = snd (put_game ?e2 (snd (post_games env0 [] celeste)) id0 ?p)"
    by (simp only: run.simps step.simps fst_conv snd_conv)
  also have "\<dots> = snd (put_game ?e2 [celeste_doc] id0 ?p)"
    by (simp only: create_celeste_doc)
  finally have r: "run [] ?ops =
      [\<lparr>doc_id = ''0123456789abcdef01234567'', rest =
        \<lparr>titre = JNull, genre = JArr [JStr ''platformer''],
         plateforme = JArr [JStr ''PC''], editeur = JNull, developpeur = JNull,
         annee_sortie = JNull, temps_jeu_heures = JNum 0, termine = JBool False,
         favorite = JBool False, date_ajout = 1000, date_modification = 2000\<rparr>\<rparr>]"
    by (simp only: pt)
  have t: "\<forall>d\<in>set [celeste_doc]. titre_trimmed (titre (rest d))"
    by (simp add: celeste_doc_def js_trim_def is_ws_def)
  note T = titre_after_updates[of ?ops "[celeste_doc]" env0 celeste id0]
  from T have k: "\<forall>d\<in>set (run [] ?ops). titre_kept (titre (rest d))"
    by (rule conjunct1)
  from T[THEN conjunct2] t
  have "(\<forall>d\<in>set (step env0 [celeste_doc] (Create celeste)). titre_trimmed (titre (rest d))) \<and>
      (\<forall>d\<in>set (step env0 [celeste_doc] (ToggleFav id0)). titre_trimmed (titre (rest d))) \<and>
      (\<forall>d\<in>set (step env0 [celeste_doc] (Delete id0)). titre_trimmed (titre (rest d)))"
    by (rule mp)
  then have g: "\<forall>d\<in>set (step env0 [celeste_doc] (ToggleFav id0)). titre_trimmed (titre (rest d))"
    by (rule conjunct2[THEN conjunct1])
  show ?thesis
    unfolding list_all_iff by (rule conjI[OF r conjI[OF k conjI[OF t g]]])
qed

end
